theory Spec2Isabelle
  imports Main
begin

section \<open>Task management backend: the authorization and relationship model\<close>

text \<open>
  The controllers of the backend (\<^verbatim>\<open>projectController.js\<close>, \<^verbatim>\<open>taskController.js\<close> and
  the authentication controller with its \<^verbatim>\<open>register\<close> handler) are embedded as functions
  that take the document store and the request and return the response together with the
  store the handler leaves behind. A response is either the error the handler answers
  with or the data of a successful answer.
\<close>

subsection \<open>Identifiers and responses\<close>

text \<open>
  A stored identifier is an ObjectId, represented by its text: the lower-case hexadecimal
  string that \<^verbatim>\<open>toString()\<close> gives. A request carries identifiers as arbitrary strings,
  which the driver casts to ObjectIds; several strings (upper-case and lower-case
  spellings) cast to the same ObjectId.
\<close>

type_synonym oid = string

text \<open>
  The failures of the handlers, named as the specification names them. \<open>status_code\<close>
  is the HTTP status each one is sent with:
  \<^item> \<open>ValidationError\<close>: 400, \<^verbatim>\<open>'Invalid project ID format'\<close>;
  \<^item> \<open>DuplicateMember\<close>: 400, \<^verbatim>\<open>'User is already a member of this project'\<close>;
  \<^item> \<open>DuplicateIdentity\<close>: 400, \<^verbatim>\<open>'User already exists'\<close>;
  \<^item> \<open>Forbidden\<close>: 403, \<^verbatim>\<open>'Not authorized to ...'\<close>;
  \<^item> \<open>NotFound\<close>: 404, \<^verbatim>\<open>'Project not found'\<close>, \<^verbatim>\<open>'Task not found'\<close>;
  \<^item> \<open>InfrastructureError\<close>: 500, the answer of every \<^verbatim>\<open>catch\<close> block.
\<close>

datatype error =
    ValidationError
  | Forbidden
  | NotFound
  | DuplicateMember
  | DuplicateIdentity
  | InfrastructureError

fun status_code :: "error \<Rightarrow> nat" where
  "status_code ValidationError = 400"
| "status_code DuplicateMember = 400"
| "status_code DuplicateIdentity = 400"
| "status_code Forbidden = 403"
| "status_code NotFound = 404"
| "status_code InfrastructureError = 500"

subsection \<open>Documents and the store\<close>

text \<open>
  The schemas live in \<^verbatim>\<open>models/\<close>; the fields below are the ones the controllers read and
  write. A field holding a JavaScript string that may be \<^verbatim>\<open>undefined\<close> is a
  \<open>string option\<close>. The fields the controllers pass to \<^verbatim>\<open>populate\<close> (owner, members,
  project, assignedTo, createdBy, the author of a comment) are ObjectId references. The
  \<^verbatim>\<open>_id\<close> of a project or task is its key in the collection.
\<close>

record user =
  u_id :: oid
  u_username :: string
  u_email :: string
  u_password :: string
  u_firstName :: "string option"
  u_lastName :: "string option"
  u_role :: string

record project =
  p_name :: "string option"
  p_description :: "string option"
  p_status :: "string option"
  p_startDate :: "string option"
  p_endDate :: "string option"
  p_owner :: oid
  p_members :: "oid list"

record comment =
  c_text :: "string option"
  c_author :: oid

record task =
  t_title :: "string option"
  t_description :: "string option"
  t_project :: oid
  t_status :: "string option"
  t_priority :: "string option"
  t_dueDate :: "string option"
  t_assignedTo :: "oid option"
  t_createdBy :: oid
  t_comments :: "comment list"

record db =
  users :: "user list"
  projects :: "oid \<rightharpoonup> project"
  tasks :: "oid \<rightharpoonup> task"

subsection \<open>The driver and the schemas\<close>

text \<open>
  What the handlers use of Mongoose and of the schemas in \<^verbatim>\<open>models/\<close>, neither of which is
  among the sources, is a parameter \<open>m\<close> of every handler:
  \<^item> \<open>isValid\<close> is \<^verbatim>\<open>mongoose.Types.ObjectId.isValid\<close>;
  \<^item> \<open>castObjectId\<close> is the cast of a request string to an ObjectId, \<open>None\<close> when the
    driver raises a CastError;
  \<^item> \<open>validateProject\<close> and \<open>validateTask\<close> say whether \<^verbatim>\<open>save()\<close> accepts a document
    (the validation of the schema); when it does not, \<^verbatim>\<open>save()\<close> rejects.
\<close>

record driver =
  isValid :: "string \<Rightarrow> bool"
  castObjectId :: "string \<Rightarrow> oid option"
  validateProject :: "project \<Rightarrow> bool"
  validateTask :: "task \<Rightarrow> bool"

subsection \<open>Request bodies\<close>

record project_body =
  b_name :: "string option"
  b_description :: "string option"
  b_status :: "string option"
  b_startDate :: "string option"
  b_endDate :: "string option"
  b_members :: "string list option"

text \<open>
  The body of a task update may carry any keys. \<^verbatim>\<open>updateTask\<close> destructures six of them;
  \<open>b_project\<close> and \<open>b_createdBy\<close> stand for the keys it does not read.
\<close>

record task_body =
  b_title :: "string option"
  b_taskDescription :: "string option"
  b_taskStatus :: "string option"
  b_priority :: "string option"
  b_dueDate :: "string option"
  b_assignedTo :: "string option"
  b_project :: "string option"
  b_createdBy :: "string option"

record register_body =
  r_username :: string
  r_email :: string
  r_password :: string
  r_firstName :: "string option"
  r_lastName :: "string option"
  r_role :: "string option"

subsection \<open>JavaScript and driver primitives\<close>

text \<open>
  \<^verbatim>\<open>a || b\<close> on strings: \<^verbatim>\<open>undefined\<close> and the empty string are falsy, every other
  string is truthy.
\<close>

fun truthy :: "string option \<Rightarrow> bool" where
  "truthy None = False"
| "truthy (Some s) = (s \<noteq> [])"

definition or_js :: "string option \<Rightarrow> string option \<Rightarrow> string option" where
  "or_js a b = (if truthy a then a else b)"

text \<open>
  \<^verbatim>\<open>assignedTo || task.assignedTo\<close> assigned to an ObjectId field: a truthy string of the
  body is cast, and the result is \<open>None\<close> when the cast fails; a falsy one leaves the
  current reference.
\<close>

fun or_ref :: "(string \<Rightarrow> oid option) \<Rightarrow> string option \<Rightarrow> oid option \<Rightarrow> oid option option" where
  "or_ref c None cur = Some cur"
| "or_ref c (Some r) cur =
     (if r = [] then Some cur
      else case c r of None \<Rightarrow> None | Some k \<Rightarrow> Some (Some k))"

text \<open>Casting every element of an array of request strings; \<open>None\<close> when one cast fails.\<close>

fun cast_all :: "(string \<Rightarrow> oid option) \<Rightarrow> string list \<Rightarrow> oid list option" where
  "cast_all c [] = Some []"
| "cast_all c (r # rs) =
     (case c r of
        None \<Rightarrow> None
      | Some k \<Rightarrow> (case cast_all c rs of None \<Rightarrow> None | Some ks \<Rightarrow> Some (k # ks)))"

text \<open>
  \<^verbatim>\<open>members || project.members\<close> assigned to the array of ObjectIds: an array is truthy,
  also the empty one, and its elements are cast.
\<close>

fun or_members :: "(string \<Rightarrow> oid option) \<Rightarrow> string list option \<Rightarrow> oid list \<Rightarrow> oid list option" where
  "or_members c None cur = Some cur"
| "or_members c (Some rs) cur = cast_all c rs"

text \<open>
  \<^verbatim>\<open>Model.findById(id)\<close> with an identifier taken from the request: the driver casts the
  string to an ObjectId and rejects with a CastError when it cannot, which the handler's
  \<^verbatim>\<open>catch\<close> turns into a 500; otherwise it resolves to the document stored under that
  ObjectId, given here with its \<^verbatim>\<open>_id\<close>, or to \<^verbatim>\<open>null\<close>.
\<close>

definition findById :: "driver \<Rightarrow> (oid \<rightharpoonup> 'd) \<Rightarrow> string \<Rightarrow> error + (oid \<times> 'd) option" where
  "findById m coll i =
    (case castObjectId m i of
       None \<Rightarrow> Inl InfrastructureError
     | Some k \<Rightarrow> Inr (case coll k of None \<Rightarrow> None | Some d \<Rightarrow> Some (k, d)))"

text \<open>
  \<^verbatim>\<open>doc.save()\<close> on the document with \<^verbatim>\<open>_id\<close> \<open>k\<close>: it rejects, and the \<^verbatim>\<open>catch\<close> block
  answers 500, when the schema's validation refuses the document; otherwise the document
  is stored. \<^verbatim>\<open>doc.deleteOne()\<close> removes it.
\<close>

definition save :: "('d \<Rightarrow> bool) \<Rightarrow> (oid \<rightharpoonup> 'd) \<Rightarrow> oid \<Rightarrow> 'd \<Rightarrow> error + (oid \<rightharpoonup> 'd)" where
  "save validate coll k d = (if validate d then Inr (coll(k \<mapsto> d)) else Inl InfrastructureError)"

definition deleteOne :: "(oid \<rightharpoonup> 'd) \<Rightarrow> oid \<Rightarrow> (oid \<rightharpoonup> 'd)" where
  "deleteOne coll k = coll(k := None)"

text \<open>
  \<^verbatim>\<open>members.includes(x)\<close> on a Mongoose array compares \<open>x\<close> with the text of each member.
  \<open>x\<close> is an ObjectId (\<^verbatim>\<open>req.user._id\<close>), or in \<^verbatim>\<open>addProjectMember\<close> the string of the
  request body as it came: it is not cast first.
\<close>

definition includes_id :: "oid list \<Rightarrow> string \<Rightarrow> bool" where
  "includes_id ms x = (x \<in> set ms)"

subsection \<open>projectController.js\<close>

text \<open>
  \<open>uid\<close> is \<^verbatim>\<open>req.user._id\<close>, the ObjectId of the authenticated requester. A successful
  answer carries the stored document: \<^verbatim>\<open>populate\<close> only replaces the owner and member
  identifiers by user summaries in the response and stores nothing.
\<close>

definition getProjectById :: "driver \<Rightarrow> db \<Rightarrow> string \<Rightarrow> oid \<Rightarrow> (error + project) \<times> db" where
  "getProjectById m s i uid =
    (if \<not> isValid m i then (Inl ValidationError, s)
     else case findById m (projects s) i of
       Inl e \<Rightarrow> (Inl e, s)
     | Inr None \<Rightarrow> (Inl NotFound, s)
     | Inr (Some (k, project)) \<Rightarrow>
         (let isOwner = (p_owner project = uid);
              isMember = includes_id (p_members project) uid
          in if \<not> isOwner \<and> \<not> isMember then (Inl Forbidden, s)
             else (Inr project, s)))"

text \<open>The assignments of \<^verbatim>\<open>updateProject\<close>, with the members as the cast gave them.\<close>

definition assignProjectFields :: "project_body \<Rightarrow> oid list \<Rightarrow> project \<Rightarrow> project" where
  "assignProjectFields body members' project =
    project
      \<lparr> p_name := or_js (b_name body) (p_name project),
        p_description := or_js (b_description body) (p_description project),
        p_status := or_js (b_status body) (p_status project),
        p_startDate := or_js (b_startDate body) (p_startDate project),
        p_endDate := or_js (b_endDate body) (p_endDate project),
        p_members := members' \<rparr>"

definition updateProject ::
  "driver \<Rightarrow> db \<Rightarrow> string \<Rightarrow> oid \<Rightarrow> project_body \<Rightarrow> (error + project) \<times> db" where
  "updateProject m s i uid body =
    (case findById m (projects s) i of
       Inl e \<Rightarrow> (Inl e, s)
     | Inr None \<Rightarrow> (Inl NotFound, s)
     | Inr (Some (k, project)) \<Rightarrow>
         if p_owner project \<noteq> uid then (Inl Forbidden, s)
         else
           (case or_members (castObjectId m) (b_members body) (p_members project) of
              None \<Rightarrow> (Inl InfrastructureError, s)
            | Some members' \<Rightarrow>
                (let project' = assignProjectFields body members' project
                 in case save (validateProject m) (projects s) k project' of
                      Inl e \<Rightarrow> (Inl e, s)
                    | Inr coll \<Rightarrow> (Inr project', s\<lparr>projects := coll\<rparr>))))"

definition deleteProject :: "driver \<Rightarrow> db \<Rightarrow> string \<Rightarrow> oid \<Rightarrow> (error + unit) \<times> db" where
  "deleteProject m s i uid =
    (case findById m (projects s) i of
       Inl e \<Rightarrow> (Inl e, s)
     | Inr None \<Rightarrow> (Inl NotFound, s)
     | Inr (Some (k, project)) \<Rightarrow>
         if p_owner project \<noteq> uid then (Inl Forbidden, s)
         else (Inr (), s\<lparr>projects := deleteOne (projects s) k\<rparr>))"

text \<open>
  \<^verbatim>\<open>addProjectMember\<close> tests \<^verbatim>\<open>members.includes(userId)\<close> on the string of the body, then
  \<^verbatim>\<open>members.push(userId)\<close> casts it: a string that is no ObjectId raises a CastError.
\<close>

definition addProjectMember ::
  "driver \<Rightarrow> db \<Rightarrow> string \<Rightarrow> oid \<Rightarrow> string \<Rightarrow> (error + project) \<times> db" where
  "addProjectMember m s i uid userId =
    (case findById m (projects s) i of
       Inl e \<Rightarrow> (Inl e, s)
     | Inr None \<Rightarrow> (Inl NotFound, s)
     | Inr (Some (k, project)) \<Rightarrow>
         if p_owner project \<noteq> uid then (Inl Forbidden, s)
         else if includes_id (p_members project) userId then (Inl DuplicateMember, s)
         else
           (case castObjectId m userId of
              None \<Rightarrow> (Inl InfrastructureError, s)
            | Some member \<Rightarrow>
                (let project' = project\<lparr>p_members := p_members project @ [member]\<rparr>
                 in case save (validateProject m) (projects s) k project' of
                      Inl e \<Rightarrow> (Inl e, s)
                    | Inr coll \<Rightarrow> (Inr project', s\<lparr>projects := coll\<rparr>))))"

text \<open>
  \<^verbatim>\<open>removeProjectMember\<close> keeps the members whose text differs from the string of the
  path, which is not cast.
\<close>

definition removeProjectMember ::
  "driver \<Rightarrow> db \<Rightarrow> string \<Rightarrow> oid \<Rightarrow> string \<Rightarrow> (error + project) \<times> db" where
  "removeProjectMember m s i uid userId =
    (case findById m (projects s) i of
       Inl e \<Rightarrow> (Inl e, s)
     | Inr None \<Rightarrow> (Inl NotFound, s)
     | Inr (Some (k, project)) \<Rightarrow>
         if p_owner project \<noteq> uid then (Inl Forbidden, s)
         else
           (let project' = project
                 \<lparr>p_members := filter (\<lambda>member. member \<noteq> userId) (p_members project)\<rparr>
            in case save (validateProject m) (projects s) k project' of
                 Inl e \<Rightarrow> (Inl e, s)
               | Inr coll \<Rightarrow> (Inr project', s\<lparr>projects := coll\<rparr>)))"

subsection \<open>taskController.js\<close>

text \<open>
  After loading the task, each handler loads the parent project with
  \<^verbatim>\<open>Project.findById(task.project)\<close> and reads \<^verbatim>\<open>project.owner\<close> with no check for
  \<^verbatim>\<open>null\<close>: when the project is gone the read throws a TypeError and the \<^verbatim>\<open>catch\<close> block
  answers 500. The stored reference is an ObjectId already, so this lookup casts nothing.
\<close>

definition getTaskById :: "driver \<Rightarrow> db \<Rightarrow> string \<Rightarrow> oid \<Rightarrow> (error + task) \<times> db" where
  "getTaskById m s i uid =
    (case findById m (tasks s) i of
       Inl e \<Rightarrow> (Inl e, s)
     | Inr None \<Rightarrow> (Inl NotFound, s)
     | Inr (Some (k, task)) \<Rightarrow>
         (case projects s (t_project task) of
            None \<Rightarrow> (Inl InfrastructureError, s)
          | Some project \<Rightarrow>
              if p_owner project \<noteq> uid \<and> \<not> includes_id (p_members project) uid
              then (Inl Forbidden, s)
              else (Inr task, s)))"

text \<open>The assignments of \<^verbatim>\<open>updateTask\<close>, with the assignee as the cast gave it.\<close>

definition assignTaskFields :: "task_body \<Rightarrow> oid option \<Rightarrow> task \<Rightarrow> task" where
  "assignTaskFields body assignee task =
    task
      \<lparr> t_title := or_js (b_title body) (t_title task),
        t_description := or_js (b_taskDescription body) (t_description task),
        t_status := or_js (b_taskStatus body) (t_status task),
        t_priority := or_js (b_priority body) (t_priority task),
        t_dueDate := or_js (b_dueDate body) (t_dueDate task),
        t_assignedTo := assignee \<rparr>"

definition updateTask ::
  "driver \<Rightarrow> db \<Rightarrow> string \<Rightarrow> oid \<Rightarrow> task_body \<Rightarrow> (error + task) \<times> db" where
  "updateTask m s i uid body =
    (case findById m (tasks s) i of
       Inl e \<Rightarrow> (Inl e, s)
     | Inr None \<Rightarrow> (Inl NotFound, s)
     | Inr (Some (k, task)) \<Rightarrow>
         (case projects s (t_project task) of
            None \<Rightarrow> (Inl InfrastructureError, s)
          | Some project \<Rightarrow>
              if p_owner project \<noteq> uid \<and> \<not> includes_id (p_members project) uid
              then (Inl Forbidden, s)
              else
                (case or_ref (castObjectId m) (b_assignedTo body) (t_assignedTo task) of
                   None \<Rightarrow> (Inl InfrastructureError, s)
                 | Some assignee \<Rightarrow>
                     (let task' = assignTaskFields body assignee task
                      in case save (validateTask m) (tasks s) k task' of
                           Inl e \<Rightarrow> (Inl e, s)
                         | Inr coll \<Rightarrow> (Inr task', s\<lparr>tasks := coll\<rparr>)))))"

definition deleteTask :: "driver \<Rightarrow> db \<Rightarrow> string \<Rightarrow> oid \<Rightarrow> (error + unit) \<times> db" where
  "deleteTask m s i uid =
    (case findById m (tasks s) i of
       Inl e \<Rightarrow> (Inl e, s)
     | Inr None \<Rightarrow> (Inl NotFound, s)
     | Inr (Some (k, task)) \<Rightarrow>
         (case projects s (t_project task) of
            None \<Rightarrow> (Inl InfrastructureError, s)
          | Some project \<Rightarrow>
              if p_owner project \<noteq> uid then (Inl Forbidden, s)
              else (Inr (), s\<lparr>tasks := deleteOne (tasks s) k\<rparr>)))"

text \<open>\<^verbatim>\<open>task.comments.push({ text, author: req.user._id })\<close>.\<close>

definition pushComment :: "string option \<Rightarrow> oid \<Rightarrow> task \<Rightarrow> task" where
  "pushComment body_text uid task =
    task\<lparr>t_comments := t_comments task @ [\<lparr>c_text = body_text, c_author = uid\<rparr>]\<rparr>"

definition addComment ::
  "driver \<Rightarrow> db \<Rightarrow> string \<Rightarrow> oid \<Rightarrow> string option \<Rightarrow> (error + task) \<times> db" where
  "addComment m s i uid body_text =
    (case findById m (tasks s) i of
       Inl e \<Rightarrow> (Inl e, s)
     | Inr None \<Rightarrow> (Inl NotFound, s)
     | Inr (Some (k, task)) \<Rightarrow>
         (case projects s (t_project task) of
            None \<Rightarrow> (Inl InfrastructureError, s)
          | Some project \<Rightarrow>
              if p_owner project \<noteq> uid \<and> \<not> includes_id (p_members project) uid
              then (Inl Forbidden, s)
              else
                (let task' = pushComment body_text uid task
                 in case save (validateTask m) (tasks s) k task' of
                      Inl e \<Rightarrow> (Inl e, s)
                    | Inr coll \<Rightarrow> (Inr task', s\<lparr>tasks := coll\<rparr>))))"

subsection \<open>The authentication controller: register\<close>

text \<open>
  Modelled from the spec: the user schema of \<^verbatim>\<open>models/User.js\<close> is not among the sources.
  The specification says the store keeps only the hash of the password, so
  \<^verbatim>\<open>User.create\<close> stores \<open>hash password\<close> for an opaque function \<open>hash\<close>; \<open>newId\<close> is the
  identifier the store gives the new document.
\<close>

definition create_user :: "(string \<Rightarrow> string) \<Rightarrow> oid \<Rightarrow> register_body \<Rightarrow> string \<Rightarrow> user" where
  "create_user hash newId body userRole =
    \<lparr> u_id = newId,
      u_username = r_username body,
      u_email = r_email body,
      u_password = hash (r_password body),
      u_firstName = r_firstName body,
      u_lastName = r_lastName body,
      u_role = userRole \<rparr>"

text \<open>\<^verbatim>\<open>User.findOne({ $or: [{ email }, { username }] })\<close>.\<close>

definition findOne_email_or_username :: "user list \<Rightarrow> string \<Rightarrow> string \<Rightarrow> user option" where
  "findOne_email_or_username us email username =
    find (\<lambda>u. u_email u = email \<or> u_username u = username) us"

definition register ::
  "(string \<Rightarrow> string) \<Rightarrow> oid \<Rightarrow> db \<Rightarrow> register_body \<Rightarrow> (error + user) \<times> db" where
  "register hash newId s body =
    (case findOne_email_or_username (users s) (r_email body) (r_username body) of
       Some userExists \<Rightarrow> (Inl DuplicateIdentity, s)
     | None \<Rightarrow>
         (let userRole = (if r_role body = Some ''admin'' then ''admin'' else ''user'');
              user = create_user hash newId body userRole
          in (Inr user, s\<lparr>users := users s @ [user]\<rparr>)))"

subsection \<open>A concrete driver and store\<close>

text \<open>
  The strings every version of the driver reads as an ObjectId are those of 24
  hexadecimal digits, in either case; the ObjectId they denote prints in lower case.
\<close>

definition isHexDigit :: "char \<Rightarrow> bool" where
  "isHexDigit c = (c \<in> set ''0123456789abcdefABCDEF'')"

definition objectIdIsValid :: "string \<Rightarrow> bool" where
  "objectIdIsValid i = (length i = 24 \<and> list_all isHexDigit i)"

definition lowerHex :: "char \<Rightarrow> char" where
  "lowerHex c =
    (if c = CHR ''A'' then CHR ''a'' else if c = CHR ''B'' then CHR ''b''
     else if c = CHR ''C'' then CHR ''c'' else if c = CHR ''D'' then CHR ''d''
     else if c = CHR ''E'' then CHR ''e'' else if c = CHR ''F'' then CHR ''f'' else c)"

definition objectIdCast :: "string \<Rightarrow> oid option" where
  "objectIdCast i = (if objectIdIsValid i then Some (map lowerHex i) else None)"

text \<open>
  Modelled from the spec: the schemas of \<^verbatim>\<open>models/Project.js\<close> and \<^verbatim>\<open>models/Task.js\<close> are
  not among the sources. The specification gives a project a name and a status among
  active, completed and archived, and a task a title, a status among pending,
  in_progress and completed and a priority among low, medium and high.
\<close>

definition projectSchema :: "project \<Rightarrow> bool" where
  "projectSchema p =
    (truthy (p_name p) \<and>
     p_status p \<in> set [Some ''active'', Some ''completed'', Some ''archived''])"

definition taskSchema :: "task \<Rightarrow> bool" where
  "taskSchema t =
    (truthy (t_title t) \<and>
     t_status t \<in> set [Some ''pending'', Some ''in_progress'', Some ''completed''] \<and>
     t_priority t \<in> set [Some ''low'', Some ''medium'', Some ''high''])"

definition mongoose :: driver where
  "mongoose =
    \<lparr> isValid = objectIdIsValid, castObjectId = objectIdCast,
      validateProject = projectSchema, validateTask = taskSchema \<rparr>"

text \<open>
  Alice owns project X, Bob is its only member, Carol is neither. Task T of project X
  was created by Bob. Task O still refers to a project that has been deleted.
\<close>

definition alice :: oid where "alice = ''65a1f0c2b3d4e5f6a7b8c901''"
definition bob :: oid where "bob = ''65a1f0c2b3d4e5f6a7b8c902''"
definition carol :: oid where "carol = ''65a1f0c2b3d4e5f6a7b8c903''"
definition projectX_id :: oid where "projectX_id = ''65a1f0c2b3d4e5f6a7b8ca01''"
definition deleted_id :: oid where "deleted_id = ''65a1f0c2b3d4e5f6a7b8ca02''"
definition taskT_id :: oid where "taskT_id = ''65a1f0c2b3d4e5f6a7b8cb01''"
definition taskO_id :: oid where "taskO_id = ''65a1f0c2b3d4e5f6a7b8cb02''"

text \<open>Upper-case spellings of the identifiers of project X and of Bob, as a request may carry them.\<close>

definition projectX_upper :: string where "projectX_upper = ''65A1F0C2B3D4E5F6A7B8CA01''"
definition bob_upper :: string where "bob_upper = ''65A1F0C2B3D4E5F6A7B8C902''"

definition projectX :: project where
  "projectX =
    \<lparr> p_name = Some ''X'', p_description = None, p_status = Some ''active'',
      p_startDate = None, p_endDate = None, p_owner = alice, p_members = [bob] \<rparr>"

definition taskT :: task where
  "taskT =
    \<lparr> t_title = Some ''Write report'', t_description = Some ''draft'', t_project = projectX_id,
      t_status = Some ''pending'', t_priority = Some ''medium'', t_dueDate = None,
      t_assignedTo = Some bob, t_createdBy = bob,
      t_comments = [\<lparr>c_text = Some ''first'', c_author = alice\<rparr>] \<rparr>"

definition taskO :: task where
  "taskO =
    \<lparr> t_title = Some ''Orphan'', t_description = None, t_project = deleted_id,
      t_status = Some ''pending'', t_priority = Some ''low'', t_dueDate = None,
      t_assignedTo = None, t_createdBy = alice, t_comments = [] \<rparr>"

definition store :: db where
  "store =
    \<lparr> users = [],
      projects = [projectX_id \<mapsto> projectX],
      tasks = [taskT_id \<mapsto> taskT, taskO_id \<mapsto> taskO] \<rparr>"

text \<open>
  The store after Alice has added herself to the members of her own project, which
  \<open>addProjectMember\<close> accepts: nothing keeps the owner out of the members.
\<close>

definition projectX_listed :: project where
  "projectX_listed = projectX\<lparr>p_members := [bob, alice]\<rparr>"

definition store_listed :: db where
  "store_listed = store\<lparr>projects := [projectX_id \<mapsto> projectX_listed]\<rparr>"



definition ann_body :: register_body where
  "ann_body =
    \<lparr> r_username = ''ann'', r_email = ''ann@example.org'', r_password = ''secret'',
      r_firstName = Some ''Ann'', r_lastName = None, r_role = Some ''admin'' \<rparr>"

definition ann_again_body :: register_body where
  "ann_again_body =
    \<lparr> r_username = ''ann2'', r_email = ''ann@example.org'', r_password = ''other'',
      r_firstName = None, r_lastName = None, r_role = Some ''Admin'' \<rparr>"

definition status_body :: task_body where
  "status_body =
    \<lparr> b_title = None, b_taskDescription = Some [], b_taskStatus = Some ''completed'',
      b_priority = None, b_dueDate = None, b_assignedTo = None,
      b_project = Some deleted_id, b_createdBy = Some carol \<rparr>"

text \<open>A body that assigns the task to something that is no ObjectId.\<close>

definition assign_body :: task_body where
  "assign_body =
    \<lparr> b_title = None, b_taskDescription = None, b_taskStatus = None,
      b_priority = None, b_dueDate = None, b_assignedTo = Some ''not-an-id'',
      b_project = None, b_createdBy = None \<rparr>"

section \<open>Properties\<close>

subsection \<open>Shared facts\<close>

lemma findById_cast:
  "castObjectId m i = Some k \<Longrightarrow>
   findById m coll i = Inr (case coll k of None \<Rightarrow> None | Some d \<Rightarrow> Some (k, d))"
  by (simp add: findById_def)

lemma mongoose_fields:
  "isValid mongoose = objectIdIsValid" "castObjectId mongoose = objectIdCast"
  "validateProject mongoose = projectSchema" "validateTask mongoose = taskSchema"
  by (simp_all add: mongoose_def)

lemma store_ids_valid:
  "objectIdIsValid projectX_id" "objectIdIsValid deleted_id"
  "objectIdIsValid projectX_upper" "\<not> objectIdIsValid ''not-an-id''"
  by (simp_all add: objectIdIsValid_def isHexDigit_def projectX_id_def deleted_id_def
      projectX_upper_def)

lemma store_ids_cast:
  "objectIdCast projectX_id = Some projectX_id" "objectIdCast deleted_id = Some deleted_id"
  "objectIdCast taskT_id = Some taskT_id" "objectIdCast taskO_id = Some taskO_id"
  "objectIdCast alice = Some alice" "objectIdCast carol = Some carol"
  "objectIdCast bob = Some bob"
  "objectIdCast projectX_upper = Some projectX_id" "objectIdCast bob_upper = Some bob"
  "objectIdCast ''not-an-id'' = None"
  by (simp_all add: objectIdCast_def objectIdIsValid_def isHexDigit_def lowerHex_def
      projectX_id_def deleted_id_def taskT_id_def taskO_id_def alice_def bob_def carol_def
      projectX_upper_def bob_upper_def)

lemma store_lookup:
  "projects store projectX_id = Some projectX"
  "projects store deleted_id = None"
  "tasks store taskT_id = Some taskT"
  "tasks store taskO_id = Some taskO"
  by (simp_all add: store_def projectX_id_def deleted_id_def taskT_id_def taskO_id_def)

lemma store_people:
  "p_owner projectX = alice" "p_members projectX = [bob]"
  "alice \<noteq> bob" "alice \<noteq> carol" "bob \<noteq> carol" "bob \<noteq> alice" "carol \<noteq> alice" "carol \<noteq> bob"
  "t_project taskT = projectX_id" "t_project taskO = deleted_id" "t_createdBy taskT = bob"
  "bob_upper \<noteq> bob" "''not-an-id'' \<noteq> bob"
  by (simp_all add: projectX_def taskT_def taskO_def alice_def bob_def carol_def bob_upper_def)

lemma store_schema:
  "projectSchema projectX" "taskSchema taskT" "taskSchema taskO"
  by (simp_all add: projectSchema_def taskSchema_def projectX_def taskT_def taskO_def)

subsection \<open>Project access\<close>

text \<open>
  C1. For a request identifier \<open>i\<close> that is well formed and denotes the ObjectId \<open>k\<close>, and
  a requester \<open>uid\<close>: when project \<open>P\<close> is stored under \<open>k\<close>, \<open>getProjectById\<close> answers with
  \<open>P\<close> exactly when \<open>uid\<close> is the owner of \<open>P\<close> or one of its members, and answers Forbidden
  otherwise; when no project is stored under \<open>k\<close> it answers NotFound whoever asks, so
  existence is decided before authorization. The store is never changed.
\<close>

theorem getProjectById_owner_or_member:
  assumes "isValid m i" and "castObjectId m i = Some k"
  shows "(\<forall>P. projects s k = Some P \<longrightarrow>
            (getProjectById m s i uid = (Inr P, s) \<longleftrightarrow>
               uid = p_owner P \<or> uid \<in> set (p_members P)) \<and>
            (\<not> (uid = p_owner P \<or> uid \<in> set (p_members P)) \<longrightarrow>
               getProjectById m s i uid = (Inl Forbidden, s))) \<and>
         (projects s k = None \<longrightarrow> getProjectById m s i uid = (Inl NotFound, s))"
  using assms by (auto simp: getProjectById_def findById_cast includes_id_def Let_def)

theorem getProjectById_owner_or_member_witness:
  "getProjectById mongoose store projectX_id alice = (Inr projectX, store) \<and>
   getProjectById mongoose store projectX_upper alice = (Inr projectX, store) \<and>
   getProjectById mongoose store projectX_id bob = (Inr projectX, store) \<and>
   getProjectById mongoose store projectX_id carol = (Inl Forbidden, store) \<and>
   getProjectById mongoose store projectX_upper carol = (Inl Forbidden, store) \<and>
   getProjectById mongoose store deleted_id carol = (Inl NotFound, store)"
  using getProjectById_owner_or_member [of mongoose projectX_id projectX_id store alice]
    getProjectById_owner_or_member [of mongoose projectX_upper projectX_id store alice]
    getProjectById_owner_or_member [of mongoose projectX_id projectX_id store bob]
    getProjectById_owner_or_member [of mongoose projectX_id projectX_id store carol]
    getProjectById_owner_or_member [of mongoose projectX_upper projectX_id store carol]
    getProjectById_owner_or_member [of mongoose deleted_id deleted_id store carol]
    mongoose_fields store_ids_valid store_ids_cast store_lookup store_people
  by simp

text \<open>
  C2. On an existing project \<open>P\<close>, \<open>updateProject\<close>, \<open>deleteProject\<close>,
  \<open>addProjectMember\<close> and \<open>removeProjectMember\<close> answer Forbidden to every requester
  other than the owner, member or not, and return the store as it was, so \<open>P\<close> is
  unchanged; whenever one of them succeeds the requester is the owner.
\<close>

theorem project_management_owner_only:
  assumes "castObjectId m i = Some k" and "projects s k = Some P"
  shows "(uid \<noteq> p_owner P \<longrightarrow>
            updateProject m s i uid body = (Inl Forbidden, s) \<and>
            deleteProject m s i uid = (Inl Forbidden, s) \<and>
            addProjectMember m s i uid u = (Inl Forbidden, s) \<and>
            removeProjectMember m s i uid u = (Inl Forbidden, s)) \<and>
         (\<forall>r s'. updateProject m s i uid body = (Inr r, s') \<longrightarrow> uid = p_owner P) \<and>
         (\<forall>r s'. deleteProject m s i uid = (Inr r, s') \<longrightarrow> uid = p_owner P) \<and>
         (\<forall>r s'. addProjectMember m s i uid u = (Inr r, s') \<longrightarrow> uid = p_owner P) \<and>
         (\<forall>r s'. removeProjectMember m s i uid u = (Inr r, s') \<longrightarrow> uid = p_owner P)"
proof -
  have forbidden: "updateProject m s i uid body = (Inl Forbidden, s)"
    "deleteProject m s i uid = (Inl Forbidden, s)"
    "addProjectMember m s i uid u = (Inl Forbidden, s)"
    "removeProjectMember m s i uid u = (Inl Forbidden, s)"
    if "uid \<noteq> p_owner P"
    using that assms
    by (simp_all add: updateProject_def deleteProject_def addProjectMember_def
        removeProjectMember_def findById_cast)
  show ?thesis
  proof (cases "uid = p_owner P")
    case True
    then show ?thesis by simp
  next
    case False
    from forbidden [OF False] False show ?thesis by simp
  qed
qed

theorem project_management_owner_only_witness:
  "updateProject mongoose store projectX_id bob
       \<lparr>b_name = Some ''Y'', b_description = None, b_status = None, b_startDate = None,
        b_endDate = None, b_members = Some []\<rparr> = (Inl Forbidden, store) \<and>
   deleteProject mongoose store projectX_id bob = (Inl Forbidden, store) \<and>
   addProjectMember mongoose store projectX_id bob carol = (Inl Forbidden, store) \<and>
   removeProjectMember mongoose store projectX_id carol bob = (Inl Forbidden, store) \<and>
   projects store projectX_id = Some projectX"
  using project_management_owner_only [of mongoose projectX_id projectX_id store projectX bob
      "\<lparr>b_name = Some ''Y'', b_description = None, b_status = None, b_startDate = None,
        b_endDate = None, b_members = Some []\<rparr>" carol]
    project_management_owner_only [of mongoose projectX_id projectX_id store projectX carol _ bob]
    mongoose_fields store_ids_cast store_lookup store_people
  by simp

subsection \<open>Task access\<close>

text \<open>
  C3, as the code has it. For a task \<open>T\<close> whose parent project \<open>P\<close> exists:
  \<open>getTaskById\<close> succeeds exactly when the requester is the owner of \<open>P\<close> or one of its
  members and answers Forbidden otherwise. \<open>updateTask\<close> and \<open>addComment\<close> answer
  Forbidden exactly when the requester is neither; for the owner or a member they
  succeed when the changed task can be saved, and answer InfrastructureError when it
  cannot: when the assignee of the body is no ObjectId or the schema refuses the task.
  \<open>deleteTask\<close> succeeds exactly when the requester is the owner of \<open>P\<close> and answers
  Forbidden to every other requester, so to every member who is not the owner, the
  member who created \<open>T\<close> included.
\<close>

theorem task_access_rules:
  assumes "castObjectId m i = Some k" and "tasks s k = Some T"
    and "projects s (t_project T) = Some P"
  shows "(uid = p_owner P \<or> uid \<in> set (p_members P) \<longrightarrow>
            getTaskById m s i uid = (Inr T, s) \<and>
            fst (updateTask m s i uid body) \<noteq> Inl Forbidden \<and>
            fst (addComment m s i uid txt) \<noteq> Inl Forbidden \<and>
            (\<forall>a. or_ref (castObjectId m) (b_assignedTo body) (t_assignedTo T) = Some a \<and>
                 validateTask m (assignTaskFields body a T) \<longrightarrow>
                 updateTask m s i uid body =
                   (Inr (assignTaskFields body a T),
                    s\<lparr>tasks := (tasks s)(k \<mapsto> assignTaskFields body a T)\<rparr>)) \<and>
            (\<forall>a. or_ref (castObjectId m) (b_assignedTo body) (t_assignedTo T) = Some a \<and>
                 \<not> validateTask m (assignTaskFields body a T) \<longrightarrow>
                 updateTask m s i uid body = (Inl InfrastructureError, s)) \<and>
            (or_ref (castObjectId m) (b_assignedTo body) (t_assignedTo T) = None \<longrightarrow>
               updateTask m s i uid body = (Inl InfrastructureError, s)) \<and>
            (validateTask m (pushComment txt uid T) \<longrightarrow>
               addComment m s i uid txt =
                 (Inr (pushComment txt uid T),
                  s\<lparr>tasks := (tasks s)(k \<mapsto> pushComment txt uid T)\<rparr>)) \<and>
            (\<not> validateTask m (pushComment txt uid T) \<longrightarrow>
               addComment m s i uid txt = (Inl InfrastructureError, s))) \<and>
         (\<not> (uid = p_owner P \<or> uid \<in> set (p_members P)) \<longrightarrow>
            getTaskById m s i uid = (Inl Forbidden, s) \<and>
            updateTask m s i uid body = (Inl Forbidden, s) \<and>
            addComment m s i uid txt = (Inl Forbidden, s)) \<and>
         (uid = p_owner P \<longrightarrow>
            deleteTask m s i uid = (Inr (), s\<lparr>tasks := (tasks s)(k := None)\<rparr>)) \<and>
         (uid \<noteq> p_owner P \<longrightarrow> deleteTask m s i uid = (Inl Forbidden, s))"
proof -
  let ?ok = "uid = p_owner P \<or> uid \<in> set (p_members P)"
  have get: "getTaskById m s i uid = (if ?ok then (Inr T, s) else (Inl Forbidden, s))"
    using assms by (auto simp: getTaskById_def findById_cast includes_id_def)
  have upd: "updateTask m s i uid body =
      (if \<not> ?ok then (Inl Forbidden, s)
       else case or_ref (castObjectId m) (b_assignedTo body) (t_assignedTo T) of
              None \<Rightarrow> (Inl InfrastructureError, s)
            | Some a \<Rightarrow>
                if validateTask m (assignTaskFields body a T)
                then (Inr (assignTaskFields body a T),
                      s\<lparr>tasks := (tasks s)(k \<mapsto> assignTaskFields body a T)\<rparr>)
                else (Inl InfrastructureError, s))"
    using assms
    by (auto simp: updateTask_def findById_cast includes_id_def save_def Let_def
        split: option.splits)
  have com: "addComment m s i uid txt =
      (if \<not> ?ok then (Inl Forbidden, s)
       else if validateTask m (pushComment txt uid T)
            then (Inr (pushComment txt uid T),
                  s\<lparr>tasks := (tasks s)(k \<mapsto> pushComment txt uid T)\<rparr>)
            else (Inl InfrastructureError, s))"
    using assms
    by (auto simp: addComment_def findById_cast includes_id_def save_def Let_def)
  have del: "deleteTask m s i uid =
      (if uid = p_owner P then (Inr (), s\<lparr>tasks := (tasks s)(k := None)\<rparr>)
       else (Inl Forbidden, s))"
    using assms by (auto simp: deleteTask_def findById_cast deleteOne_def)
  show ?thesis
    unfolding get upd com del by (auto split: option.splits)
qed

theorem task_access_rules_witness:
  "getTaskById mongoose store taskT_id bob = (Inr taskT, store) \<and>
   getTaskById mongoose store taskT_id carol = (Inl Forbidden, store) \<and>
   updateTask mongoose store taskT_id carol status_body = (Inl Forbidden, store) \<and>
   addComment mongoose store taskT_id carol (Some ''hi'') = (Inl Forbidden, store) \<and>
   fst (updateTask mongoose store taskT_id bob status_body) =
     Inr (assignTaskFields status_body (Some bob) taskT) \<and>
   fst (addComment mongoose store taskT_id bob (Some ''hi'')) =
     Inr (pushComment (Some ''hi'') bob taskT) \<and>
   updateTask mongoose store taskT_id bob assign_body = (Inl InfrastructureError, store) \<and>
   bob \<in> set (p_members projectX) \<and> t_createdBy taskT = bob \<and>
   deleteTask mongoose store taskT_id bob = (Inl Forbidden, store) \<and>
   deleteTask mongoose store taskT_id alice =
     (Inr (), store\<lparr>tasks := (tasks store)(taskT_id := None)\<rparr>)"
proof -
  note r = task_access_rules [of mongoose taskT_id taskT_id store taskT projectX,
      OF _ store_lookup(3)]
  have pre: "castObjectId mongoose taskT_id = Some taskT_id"
    "projects store (t_project taskT) = Some projectX"
    using mongoose_fields store_ids_cast store_lookup store_people by simp_all
  have ref: "or_ref (castObjectId mongoose) (b_assignedTo status_body) (t_assignedTo taskT) =
      Some (Some bob)"
    "or_ref (castObjectId mongoose) (b_assignedTo assign_body) (t_assignedTo taskT) = None"
    using mongoose_fields store_ids_cast
    by (simp_all add: status_body_def assign_body_def taskT_def)
  have ok: "validateTask mongoose (assignTaskFields status_body (Some bob) taskT)"
    "validateTask mongoose (pushComment (Some ''hi'') bob taskT)"
    by (simp_all add: mongoose_fields taskSchema_def assignTaskFields_def pushComment_def
        or_js_def status_body_def taskT_def)
  have who: "bob = p_owner projectX \<or> bob \<in> set (p_members projectX)"
    "\<not> (carol = p_owner projectX \<or> carol \<in> set (p_members projectX))"
    "alice = p_owner projectX" "bob \<noteq> p_owner projectX" "bob \<in> set (p_members projectX)"
    using store_people by simp_all
  show ?thesis
    using r [OF pre, of bob status_body "Some ''hi''"] r [OF pre, of bob assign_body]
      r [OF pre, of carol status_body "Some ''hi''"] r [OF pre, of alice]
      ref ok who store_people(11)
    by simp
qed

text \<open>
  Forbidden is not the answer to every member of the project: the members may contain
  the owner. Alice adds herself to the members of her project X and then deletes task T.
  Nor does every update by the owner succeed: the one that assigns the task to something
  that is no ObjectId is answered with InfrastructureError.
\<close>

theorem deleteTask_owner_listed_counterexample:
  "addProjectMember mongoose store projectX_id alice alice =
     (Inr projectX_listed, store_listed) \<and>
   projects store_listed projectX_id = Some projectX_listed \<and>
   tasks store_listed taskT_id = Some taskT \<and>
   t_project taskT = projectX_id \<and>
   alice \<in> set (p_members projectX_listed) \<and>
   deleteTask mongoose store_listed taskT_id alice =
     (Inr (), store_listed\<lparr>tasks := (tasks store_listed)(taskT_id := None)\<rparr>) \<and>
   fst (deleteTask mongoose store_listed taskT_id alice) \<noteq> Inl Forbidden \<and>
   updateTask mongoose store taskT_id alice assign_body = (Inl InfrastructureError, store)"
proof -
  have add: "addProjectMember mongoose store projectX_id alice alice =
      (Inr projectX_listed, store_listed)"
    using mongoose_fields store_ids_cast store_lookup store_people store_schema
    by (simp add: addProjectMember_def findById_def includes_id_def save_def Let_def
        projectX_listed_def store_listed_def store_def projectSchema_def)
  have look: "projects store_listed projectX_id = Some projectX_listed"
    "tasks store_listed taskT_id = Some taskT"
    using store_lookup by (simp_all add: store_listed_def)
  have own: "p_owner projectX_listed = alice" "alice \<in> set (p_members projectX_listed)"
    using store_people by (simp_all add: projectX_listed_def)
  have del: "deleteTask mongoose store_listed taskT_id alice =
      (Inr (), store_listed\<lparr>tasks := (tasks store_listed)(taskT_id := None)\<rparr>)"
    using mongoose_fields store_ids_cast look own store_people
    by (simp add: deleteTask_def findById_def deleteOne_def)
  have upd: "updateTask mongoose store taskT_id alice assign_body =
      (Inl InfrastructureError, store)"
    using mongoose_fields store_ids_cast store_lookup store_people
    by (simp add: updateTask_def findById_def includes_id_def assign_body_def)
  from add look own del upd store_people show ?thesis by simp
qed

subsection \<open>Membership changes\<close>




subsection \<open>Registration\<close>




text \<open>
  C6. The user a successful registration creates has role \<^verbatim>\<open>admin\<close> exactly when the
  request's \<^verbatim>\<open>role\<close> is the string \<^verbatim>\<open>admin\<close>, and role \<^verbatim>\<open>user\<close> for every other value
  and when the request has no \<^verbatim>\<open>role\<close>.
\<close>

theorem register_role:
  assumes "register hash newId s body = (Inr u, s')"
  shows "(u_role u = ''admin'' \<longleftrightarrow> r_role body = Some ''admin'') \<and>
         (u_role u = ''user'' \<longleftrightarrow> r_role body \<noteq> Some ''admin'') \<and>
         users s' = users s @ [u]"
proof -
  from assms have u: "u = create_user hash newId body
        (if r_role body = Some ''admin'' then ''admin'' else ''user'')"
    and s': "s' = s\<lparr>users := users s @ [u]\<rparr>"
    by (auto simp: register_def Let_def split: option.splits)
  have "u_role u = (if r_role body = Some ''admin'' then ''admin'' else ''user'')"
    by (subst u) (simp add: create_user_def)
  then show ?thesis using s' by simp
qed

theorem register_role_witness:
  "(\<exists>u s'. register (\<lambda>p. ''#'' @ p) alice store ann_body = (Inr u, s') \<and> u_role u = ''admin'') \<and>
   (\<exists>u s'. register (\<lambda>p. ''#'' @ p) alice store ann_again_body = (Inr u, s') \<and> u_role u = ''user'') \<and>
   (\<exists>u s'. register (\<lambda>p. ''#'' @ p) alice store (ann_body\<lparr>r_role := None\<rparr>) = (Inr u, s') \<and>
      u_role u = ''user'')"
proof -
  obtain u1 s1 where 1: "register (\<lambda>p. ''#'' @ p) alice store ann_body = (Inr u1, s1)"
    by (simp add: register_def findOne_email_or_username_def store_def Let_def)
  obtain u2 s2 where 2: "register (\<lambda>p. ''#'' @ p) alice store ann_again_body = (Inr u2, s2)"
    by (simp add: register_def findOne_email_or_username_def store_def Let_def)
  obtain u3 s3 where
    3: "register (\<lambda>p. ''#'' @ p) alice store (ann_body\<lparr>r_role := None\<rparr>) = (Inr u3, s3)"
    by (simp add: register_def findOne_email_or_username_def store_def Let_def)
  have "u_role u1 = ''admin''"
    using register_role [OF 1] by (simp add: ann_body_def)
  moreover have "u_role u2 = ''user''"
    using register_role [OF 2] by (simp add: ann_again_body_def)
  moreover have "u_role u3 = ''user''"
    using register_role [OF 3] by simp
  ultimately show ?thesis using 1 2 3 by blast
qed

subsection \<open>Task updates and comments\<close>

lemma updateTask_success:
  assumes "updateTask m s i uid body = (Inr T', s')"
  shows "\<exists>k T a. castObjectId m i = Some k \<and> tasks s k = Some T \<and>
           or_ref (castObjectId m) (b_assignedTo body) (t_assignedTo T) = Some a \<and>
           T' = assignTaskFields body a T \<and>
           s' = s\<lparr>tasks := (tasks s)(k \<mapsto> T')\<rparr>"
proof (cases "castObjectId m i")
  case None
  with assms show ?thesis by (simp add: updateTask_def findById_def)
next
  case k: (Some k)
  show ?thesis
  proof (cases "tasks s k")
    case None
    with k assms show ?thesis by (simp add: updateTask_def findById_def)
  next
    case T: (Some T)
    show ?thesis
    proof (cases "projects s (t_project T)")
      case None
      with k T assms show ?thesis by (simp add: updateTask_def findById_def)
    next
      case P: (Some P)
      show ?thesis
      proof (cases "or_ref (castObjectId m) (b_assignedTo body) (t_assignedTo T)")
        case None
        with k T P assms show ?thesis
          by (simp add: updateTask_def findById_def split: if_splits)
      next
        case a: (Some a)
        with k T P assms have "T' = assignTaskFields body a T"
          and "s' = s\<lparr>tasks := (tasks s)(k \<mapsto> T')\<rparr>"
          by (auto simp: updateTask_def findById_def save_def Let_def split: if_splits)
        with k T a show ?thesis by blast
      qed
    qed
  qed
qed

text \<open>
  C7. After a successful \<open>updateTask\<close> the stored task has the project reference, the
  creator and the comments it had before, whatever the body holds, and every one of the
  six patched fields whose value in the body is absent or empty keeps its current value.
\<close>

theorem updateTask_frame:
  assumes "updateTask m s i uid body = (Inr T', s')"
  shows "\<exists>k T. castObjectId m i = Some k \<and> tasks s k = Some T \<and> tasks s' k = Some T' \<and>
           t_project T' = t_project T \<and> t_createdBy T' = t_createdBy T \<and>
           t_comments T' = t_comments T \<and>
           (\<not> truthy (b_title body) \<longrightarrow> t_title T' = t_title T) \<and>
           (\<not> truthy (b_taskDescription body) \<longrightarrow> t_description T' = t_description T) \<and>
           (\<not> truthy (b_taskStatus body) \<longrightarrow> t_status T' = t_status T) \<and>
           (\<not> truthy (b_priority body) \<longrightarrow> t_priority T' = t_priority T) \<and>
           (\<not> truthy (b_dueDate body) \<longrightarrow> t_dueDate T' = t_dueDate T) \<and>
           (\<not> truthy (b_assignedTo body) \<longrightarrow> t_assignedTo T' = t_assignedTo T)"
proof -
  from updateTask_success [OF assms] obtain k T a where
    k: "castObjectId m i = Some k"
    and T: "tasks s k = Some T"
    and a: "or_ref (castObjectId m) (b_assignedTo body) (t_assignedTo T) = Some a"
    and T': "T' = assignTaskFields body a T"
    and s': "s' = s\<lparr>tasks := (tasks s)(k \<mapsto> T')\<rparr>"
    by blast
  have "tasks s' k = Some T'" by (simp add: s')
  moreover have "t_project T' = t_project T" "t_createdBy T' = t_createdBy T"
    "t_comments T' = t_comments T"
    by (simp_all add: T' assignTaskFields_def)
  moreover have "\<not> truthy (b_title body) \<longrightarrow> t_title T' = t_title T"
    "\<not> truthy (b_taskDescription body) \<longrightarrow> t_description T' = t_description T"
    "\<not> truthy (b_taskStatus body) \<longrightarrow> t_status T' = t_status T"
    "\<not> truthy (b_priority body) \<longrightarrow> t_priority T' = t_priority T"
    "\<not> truthy (b_dueDate body) \<longrightarrow> t_dueDate T' = t_dueDate T"
    by (simp_all add: T' assignTaskFields_def or_js_def)
  moreover have "\<not> truthy (b_assignedTo body) \<longrightarrow> t_assignedTo T' = t_assignedTo T"
    using a by (cases "b_assignedTo body") (auto simp: T' assignTaskFields_def split: if_splits)
  ultimately show ?thesis using k T by blast
qed

theorem updateTask_frame_witness:
  "\<exists>T'. fst (updateTask mongoose store taskT_id alice status_body) = Inr T' \<and>
     t_project T' = projectX_id \<and> t_createdBy T' = bob \<and>
     t_title T' = Some ''Write report'' \<and> t_description T' = Some ''draft'' \<and>
     t_status T' = Some ''completed''"
proof -
  have c: "castObjectId mongoose taskT_id = Some taskT_id"
    using mongoose_fields store_ids_cast by simp
  have ok: "validateTask mongoose (assignTaskFields status_body (Some bob) taskT)"
    by (simp add: mongoose_fields taskSchema_def assignTaskFields_def or_js_def
        status_body_def taskT_def)
  have r: "or_ref (castObjectId mongoose) (b_assignedTo status_body) (t_assignedTo taskT) =
      Some (Some bob)"
    by (simp add: status_body_def taskT_def)
  obtain T' s' where
    u: "updateTask mongoose store taskT_id alice status_body = (Inr T', s')"
    using c ok r store_lookup store_people
    by (simp add: updateTask_def findById_def save_def Let_def)
  from updateTask_success [OF u] c store_lookup obtain a where
    "T' = assignTaskFields status_body a taskT"
    by auto
  then have "t_status T' = Some ''completed''"
    by (simp add: assignTaskFields_def or_js_def status_body_def)
  moreover have "t_project T' = projectX_id \<and> t_createdBy T' = bob \<and>
     t_title T' = Some ''Write report'' \<and> t_description T' = Some ''draft''"
    using updateTask_frame [OF u] c store_lookup
    by (auto simp: taskT_def status_body_def)
  ultimately show ?thesis using u by simp
qed

lemma addComment_success:
  assumes "addComment m s i uid txt = (Inr T', s')"
  shows "\<exists>k T. castObjectId m i = Some k \<and> tasks s k = Some T \<and>
           T' = pushComment txt uid T \<and>
           s' = s\<lparr>tasks := (tasks s)(k \<mapsto> T')\<rparr>"
proof (cases "castObjectId m i")
  case None
  with assms show ?thesis by (simp add: addComment_def findById_def)
next
  case k: (Some k)
  show ?thesis
  proof (cases "tasks s k")
    case None
    with k assms show ?thesis by (simp add: addComment_def findById_def)
  next
    case T: (Some T)
    show ?thesis
    proof (cases "projects s (t_project T)")
      case None
      with k T assms show ?thesis by (simp add: addComment_def findById_def)
    next
      case P: (Some P)
      with k T assms have "T' = pushComment txt uid T"
        and "s' = s\<lparr>tasks := (tasks s)(k \<mapsto> T')\<rparr>"
        by (auto simp: addComment_def findById_def save_def Let_def split: if_splits)
      with k T show ?thesis by blast
    qed
  qed
qed

text \<open>
  C8. After a successful \<open>addComment\<close> the comments of the stored task are the previous
  comments followed by the one new comment with the given text and the requester as
  author: the previous comments are a prefix of the new sequence, in their order.
\<close>

theorem addComment_appends:
  assumes "addComment m s i uid txt = (Inr T', s')"
  shows "\<exists>k T. castObjectId m i = Some k \<and> tasks s k = Some T \<and> tasks s' k = Some T' \<and>
           t_comments T' = t_comments T @ [\<lparr>c_text = txt, c_author = uid\<rparr>] \<and>
           length (t_comments T') = Suc (length (t_comments T)) \<and>
           take (length (t_comments T)) (t_comments T') = t_comments T"
proof -
  from addComment_success [OF assms] obtain k T where
    k: "castObjectId m i = Some k"
    and T: "tasks s k = Some T"
    and T': "T' = pushComment txt uid T"
    and s': "s' = s\<lparr>tasks := (tasks s)(k \<mapsto> T')\<rparr>"
    by blast
  have "tasks s' k = Some T'" by (simp add: s')
  moreover have "t_comments T' = t_comments T @ [\<lparr>c_text = txt, c_author = uid\<rparr>]"
    by (simp add: T' pushComment_def)
  ultimately show ?thesis using k T by simp
qed

theorem addComment_appends_witness:
  "\<exists>T'. fst (addComment mongoose store taskT_id bob (Some ''second'')) = Inr T' \<and>
     t_comments T' =
       [\<lparr>c_text = Some ''first'', c_author = alice\<rparr>, \<lparr>c_text = Some ''second'', c_author = bob\<rparr>]"
proof -
  have c: "castObjectId mongoose taskT_id = Some taskT_id"
    using mongoose_fields store_ids_cast by simp
  have ok: "validateTask mongoose (pushComment (Some ''second'') bob taskT)"
    by (simp add: mongoose_fields taskSchema_def pushComment_def taskT_def)
  obtain T' s' where
    a: "addComment mongoose store taskT_id bob (Some ''second'') = (Inr T', s')"
    using c ok store_lookup store_people
    by (simp add: addComment_def findById_def includes_id_def save_def Let_def)
  have "t_comments T' =
      [\<lparr>c_text = Some ''first'', c_author = alice\<rparr>, \<lparr>c_text = Some ''second'', c_author = bob\<rparr>]"
    using addComment_appends [OF a] c store_lookup by (auto simp: taskT_def)
  then show ?thesis using a by simp
qed

subsection \<open>Malformed and dangling identifiers\<close>

text \<open>
  C9, as the code has it. \<open>getProjectById\<close> answers a malformed project identifier with
  ValidationError (400, \<^verbatim>\<open>'Invalid project ID format'\<close>) before any lookup; NotFound (404)
  is the answer to a well-formed identifier when no project is stored under the
  ObjectId it denotes.
\<close>

theorem getProjectById_malformed:
  "(\<not> isValid m i \<longrightarrow> getProjectById m s i uid = (Inl ValidationError, s)) \<and>
   (isValid m i \<and> castObjectId m i = Some k \<and> projects s k = None \<longrightarrow>
      getProjectById m s i uid = (Inl NotFound, s))"
  by (simp add: getProjectById_def findById_def)

theorem getProjectById_malformed_witness:
  "getProjectById mongoose store ''not-an-id'' carol = (Inl ValidationError, store) \<and>
   getProjectById mongoose store deleted_id carol = (Inl NotFound, store)"
  using getProjectById_malformed [of mongoose "''not-an-id''" store carol]
    getProjectById_malformed [of mongoose deleted_id store carol deleted_id]
    mongoose_fields store_ids_valid store_ids_cast store_lookup
  by simp

text \<open>
  The two failures differ on a concrete request: the malformed identifier is not
  answered with NotFound.
\<close>

theorem getProjectById_malformed_counterexample:
  "\<not> isValid mongoose ''not-an-id'' \<and>
   getProjectById mongoose store ''not-an-id'' alice = (Inl ValidationError, store) \<and>
   fst (getProjectById mongoose store ''not-an-id'' alice) \<noteq> Inl NotFound \<and>
   isValid mongoose deleted_id \<and>
   getProjectById mongoose store deleted_id alice = (Inl NotFound, store)"
  using mongoose_fields store_ids_valid store_ids_cast store_lookup
  by (simp add: getProjectById_def findById_def)

text \<open>
  C10. For a task whose project reference points to no stored project, \<open>getTaskById\<close>,
  \<open>updateTask\<close>, \<open>deleteTask\<close> and \<open>addComment\<close> all answer InfrastructureError (500),
  whoever asks: neither NotFound nor Forbidden.
\<close>

theorem dangling_project_reference:
  assumes "castObjectId m i = Some k" and "tasks s k = Some T"
    and "projects s (t_project T) = None"
  shows "getTaskById m s i uid = (Inl InfrastructureError, s) \<and>
         updateTask m s i uid body = (Inl InfrastructureError, s) \<and>
         deleteTask m s i uid = (Inl InfrastructureError, s) \<and>
         addComment m s i uid txt = (Inl InfrastructureError, s) \<and>
         status_code InfrastructureError = 500"
  using assms
  by (simp add: getTaskById_def updateTask_def deleteTask_def addComment_def findById_def)

theorem dangling_project_reference_witness:
  "getTaskById mongoose store taskO_id alice = (Inl InfrastructureError, store) \<and>
   updateTask mongoose store taskO_id alice status_body = (Inl InfrastructureError, store) \<and>
   deleteTask mongoose store taskO_id alice = (Inl InfrastructureError, store) \<and>
   addComment mongoose store taskO_id alice (Some ''hi'') = (Inl InfrastructureError, store)"
  using dangling_project_reference
      [of mongoose taskO_id taskO_id store taskO alice status_body "Some ''hi''"]
    mongoose_fields store_ids_cast store_lookup store_people
  by simp

end
